theory Spec2Isabelle
  imports Main
begin

section \<open>Data model\<close>

text \<open>
  The plugin keeps two tables, \<open>bottle\<close> and \<open>comment\<close> (interfaces \<open>Bottle\<close> and
  \<open>Comment\<close>, declared again in \<open>extendTables\<close>). Record fields are global names in HOL, so
  the fields of a bottle carry the prefix \<open>b_\<close> and those of a comment the prefix \<open>c_\<close>.
  Unsigned columns are \<open>nat\<close>; \<open>commentCount\<close> is a signed column whose initial value is
  \<open>-1\<close>, so it is an \<open>int\<close>. A string is the list of its code units.
\<close>

record bottle =
  b_id :: nat
  b_name :: string
  b_uid :: string
  b_gid :: string
  b_cnid :: string
  b_username :: string
  b_content :: string
  b_isHot :: nat
  b_commentCount :: int
  b_time :: nat

record comment =
  c_id :: nat
  c_cid :: nat
  c_bid :: nat
  c_uid :: string
  c_gid :: string
  c_cnid :: string
  c_username :: string
  c_content :: string
  c_time :: nat

text \<open>
  The state the actions work on: the two tables in row order, the local asset directory
  (each file named by its \<open>file:\<close> locator) and the in-memory \<open>bottleMap\<close> from the handle
  of a delivered message to the bottle it showed.
\<close>

record state =
  bottles :: "bottle list"
  comments :: "comment list"
  files :: "string list"
  bottleMap :: "(string \<times> nat) list"

datatype save_mode = Url | Base64 | File

record config =
  manager :: "string list"
  allowPic :: bool
  allowDropOthers :: bool
  selfDrop :: bool
  preview :: bool
  maxRetry :: nat
  maxLength :: nat
  saveMode :: save_mode
  messageRecord :: bool
  commentLimit :: nat
  bottleLimit :: nat

text \<open>
  What the command front end hands to an action about the caller. A guild or channel that
  is missing (a direct message) is the empty string. The configuration holds the options
  the modelled actions read; \<open>maxRetry\<close> and the page sizes are counts.
\<close>

record session =
  userId :: string
  s_username :: string
  guildId :: string
  channelId :: string
  platform :: string

text \<open>
  Library functions the actions call and whose code is not part of the plugin:
  \<open>toNumber s\<close> is \<open>+s\<close>, of which the actions only ask whether it is \<open>NaN\<close> and
  which bottle id it equals; \<open>regexTest p\<close> is \<open>new RegExp(p)\<close>, \<open>None\<close> when the
  constructor throws, and otherwise the test of a name against the pattern;
  \<open>hparse\<close> is \<open>h.parse\<close>, giving the elements of a rich text.
\<close>

datatype number = NaN | Id nat | OtherNumber

record element =
  e_type :: string
  e_src :: string

record library =
  toNumber :: "string \<Rightarrow> number"
  regexTest :: "string \<Rightarrow> (string \<Rightarrow> bool) option"
  hparse :: "string \<Rightarrow> element list"
  replyPrefix :: "nat \<Rightarrow> string \<Rightarrow> string"

text \<open>
  What an action answers. \<open>Silent\<close> is an action that returns nothing, \<open>Crashed\<close> one that
  ends by an exception nobody catches.
\<close>

datatype reply =
    Silent
  | Crashed
  | NameIsNumeric
  | NeedContent
  | MayNotDropOthers
  | TooShort
  | TooLong
  | AssetsNotStored
  | PreviewSent
  | PreviewFailed
  | Thrown nat
  | NoBottles
  | NoSuchBottle
  | Listing "(nat \<times> string) list"
  | Drawn nat "comment list"
  | DrawFailed
  | NoBottleToComment
  | NoCommentToReply
  | NoAudioVideo
  | Commented
  | NoBottleToDelete
  | MayNotDeleteBottle
  | BottleDeleted
  | NoCommentToDelete
  | MayNotDeleteComment
  | CommentDeleted
  | NeedDays
  | MayNotExpire
  | NothingExpired
  | ExpiredDeleted
  | MayNotPurge
  | NeedEnd
  | StartAfterEnd
  | NotConfirmed
  | NoneBroken
  | Purged
  | PurgeCancelled
  | ManagerOnlyName
  | Named
  | ManagerOnlyHot
  | HotSet

definition isNumber :: "library \<Rightarrow> string \<Rightarrow> bool" where
  "isNumber lib s = (toNumber lib s \<noteq> NaN)"

section \<open>The store\<close>

text \<open>
  The database of the host framework, as far as the plugin uses it: \<open>get\<close> filters a table,
  \<open>set\<close> patches every row the filter selects, \<open>remove\<close> deletes every row it selects and
  \<open>create\<close> appends a row under a new value of the auto-increment key, here one more than
  the largest key in the table. The plugin opens no transaction, and the model runs one
  action at a time.
\<close>

definition nextId :: "nat list \<Rightarrow> nat" where
  "nextId ks = Suc (foldr max ks 0)"

definition getBottle :: "state \<Rightarrow> nat \<Rightarrow> bottle list" where
  "getBottle s i = filter (\<lambda>b. b_id b = i) (bottles s)"

definition setBottle :: "(bottle \<Rightarrow> bool) \<Rightarrow> (bottle \<Rightarrow> bottle) \<Rightarrow> state \<Rightarrow> state" where
  "setBottle p f s = s\<lparr>bottles := map (\<lambda>b. if p b then f b else b) (bottles s)\<rparr>"

definition removeBottle :: "(bottle \<Rightarrow> bool) \<Rightarrow> state \<Rightarrow> state" where
  "removeBottle p s = s\<lparr>bottles := filter (\<lambda>b. \<not> p b) (bottles s)\<rparr>"

definition createBottle :: "bottle \<Rightarrow> state \<Rightarrow> bottle \<times> state" where
  "createBottle row s =
     (let b = row\<lparr>b_id := nextId (map b_id (bottles s))\<rparr>
      in (b, s\<lparr>bottles := bottles s @ [b]\<rparr>))"

definition getComment :: "state \<Rightarrow> (comment \<Rightarrow> bool) \<Rightarrow> comment list" where
  "getComment s p = filter p (comments s)"

definition setComment :: "(comment \<Rightarrow> bool) \<Rightarrow> (comment \<Rightarrow> comment) \<Rightarrow> state \<Rightarrow> state" where
  "setComment p f s = s\<lparr>comments := map (\<lambda>c. if p c then f c else c) (comments s)\<rparr>"

definition removeComment :: "(comment \<Rightarrow> bool) \<Rightarrow> state \<Rightarrow> state" where
  "removeComment p s = s\<lparr>comments := filter (\<lambda>c. \<not> p c) (comments s)\<rparr>"

definition createComment :: "comment \<Rightarrow> state \<Rightarrow> comment \<times> state" where
  "createComment row s =
     (let c = row\<lparr>c_id := nextId (map c_id (comments s))\<rparr>
      in (c, s\<lparr>comments := comments s @ [c]\<rparr>))"

section \<open>Naming and featuring a bottle\<close>

text \<open>
  \<^verbatim>\<open>
  let bottle = await ctx.database.get("bottle", {id})
  if (bottle.length == 0) return <no such bottle>
  else if (bottle[0].uid !== session.userId && !config.manager.includes(session.userId))
    return <only a manager may name another user's bottle>
  else if (!isNaN(+name)) return <a name may not be a number>
  await ctx.database.set("bottle", {id}, {name})
  \<close>
\<close>

definition nameBottle :: "library \<Rightarrow> config \<Rightarrow> session \<Rightarrow> nat \<Rightarrow> string \<Rightarrow> state \<Rightarrow> reply \<times> state" where
  "nameBottle lib cfg ses i nm s =
     (case getBottle s i of
        [] \<Rightarrow> (NoSuchBottle, s)
      | b # _ \<Rightarrow>
          if b_uid b \<noteq> userId ses \<and> userId ses \<notin> set (manager cfg) then (ManagerOnlyName, s)
          else if isNumber lib nm then (NameIsNumeric, s)
          else (Named, setBottle (\<lambda>r. b_id r = i) (\<lambda>r. r\<lparr>b_name := nm\<rparr>) s))"

text \<open>
  \<^verbatim>\<open>
  let bottle = await ctx.database.get("bottle", {id})
  if (bottle.length == 0) return <no such bottle>
  else if (!config.manager.includes(session.userId)) return <only a manager may feature a bottle>
  await ctx.database.set("bottle", {id}, {isHot: 1})
  \<close>
\<close>

definition setHotBottle :: "config \<Rightarrow> session \<Rightarrow> nat \<Rightarrow> state \<Rightarrow> reply \<times> state" where
  "setHotBottle cfg ses i s =
     (case getBottle s i of
        [] \<Rightarrow> (NoSuchBottle, s)
      | b # _ \<Rightarrow>
          if userId ses \<notin> set (manager cfg) then (ManagerOnlyHot, s)
          else (HotSet, setBottle (\<lambda>r. b_id r = i) (\<lambda>r. r\<lparr>b_isHot := 1\<rparr>) s))"

section \<open>Deleting\<close>

text \<open>
  The assets a rich text keeps in the local directory: the \<open>src\<close> of every \<open>img\<close>, \<open>audio\<close>
  or \<open>video\<close> element that starts with \<open>file\<close>. \<open>unlinkSync\<close> throws when the file is
  not there, which ends the action on the spot; \<open>unlinkAll\<close> returns the directory as it
  is left and whether every file was removed.
\<close>

definition startsWith :: "string \<Rightarrow> string \<Rightarrow> bool" where
  "startsWith s p = (take (length p) s = p)"

definition localAssets :: "library \<Rightarrow> string \<Rightarrow> string list" where
  "localAssets lib text =
     map e_src (filter (\<lambda>e. e_type e \<in> set [''img'', ''audio'', ''video''] \<and> startsWith (e_src e) ''file'')
       (hparse lib text))"

fun unlinkAll :: "string list \<Rightarrow> string list \<Rightarrow> string list \<times> bool" where
  "unlinkAll [] fs = (fs, True)"
| "unlinkAll (p # ps) fs = (if p \<in> set fs then unlinkAll ps (removeAll p fs) else (fs, False))"

text \<open>
  \<^verbatim>\<open>
  const bottle = (await ctx.database.get('bottle', { id: id }))[0];
  if (!bottle) return <no such bottle>
  if (!config.manager.includes(session.event.user.id) && session.event.user.id !== bottle.uid)
    return <may not delete another user's bottle>
  for (let element of h.parse(bottle.content)) { ... unlinkSync(fileURLToPath(element.attrs.src)) }
  for (let comment of await ctx.database.get("comment", { bid: id }))
    for (let element of h.parse(comment.content)) { ... unlinkSync(...) }
  await ctx.database.remove('bottle', { id: id });
  await ctx.database.remove('comment', { bid: id });
  \<close>
\<close>

definition deleteBottle :: "library \<Rightarrow> config \<Rightarrow> session \<Rightarrow> nat \<Rightarrow> state \<Rightarrow> reply \<times> state" where
  "deleteBottle lib cfg ses i s =
     (case getBottle s i of
        [] \<Rightarrow> (NoBottleToDelete, s)
      | b # _ \<Rightarrow>
          if userId ses \<notin> set (manager cfg) \<and> userId ses \<noteq> b_uid b then (MayNotDeleteBottle, s)
          else
            (case unlinkAll
                    (localAssets lib (b_content b) @
                     concat (map (\<lambda>c. localAssets lib (c_content c)) (getComment s (\<lambda>c. c_bid c = i))))
                    (files s) of
               (fs, False) \<Rightarrow> (Crashed, s\<lparr>files := fs\<rparr>)
             | (fs, True) \<Rightarrow>
                 (BottleDeleted,
                  removeComment (\<lambda>c. c_bid c = i) (removeBottle (\<lambda>r. b_id r = i) (s\<lparr>files := fs\<rparr>)))))"

text \<open>
  \<^verbatim>\<open>
  const comment = (await ctx.database.get('comment', {bid: bid, cid: cid }))[0];
  if (!comment) return <no such comment>
  if (!config.manager.includes(session.event.user.id) && session.event.user.id !== comment.uid)
    return <may not delete another user's comment>
  for (let element of h.parse(comment.content)) { ... unlinkSync(...) }
  await ctx.database.remove('comment', { bid: bid, cid: cid });
  \<close>
  The action writes nothing to the bottle table.
\<close>

definition deleteComment :: "library \<Rightarrow> config \<Rightarrow> session \<Rightarrow> nat \<Rightarrow> nat \<Rightarrow> state \<Rightarrow> reply \<times> state" where
  "deleteComment lib cfg ses bid cid s =
     (case getComment s (\<lambda>c. c_bid c = bid \<and> c_cid c = cid) of
        [] \<Rightarrow> (NoCommentToDelete, s)
      | c # _ \<Rightarrow>
          if userId ses \<notin> set (manager cfg) \<and> userId ses \<noteq> c_uid c then (MayNotDeleteComment, s)
          else
            (case unlinkAll (localAssets lib (c_content c)) (files s) of
               (fs, False) \<Rightarrow> (Crashed, s\<lparr>files := fs\<rparr>)
             | (fs, True) \<Rightarrow>
                 (CommentDeleted, removeComment (\<lambda>r. c_bid r = bid \<and> c_cid r = cid) (s\<lparr>files := fs\<rparr>))))"

subsection \<open>The expiry sweep\<close>

text \<open>
  \<^verbatim>\<open>
  if (!days) return <give the days>
  if (!config.manager.includes(session.event.user.id)) return <no permission>
  const bottles = await ctx.database.get('bottle', { time: { $lt: Time.getDateNumber() - deleteDays } });
  if (!bottles || bottles.length < 1) return <nothing expired>
  await ctx.database.remove('bottle', { time: { $lt: Time.getDateNumber() - deleteDays } });
  await ctx.database.remove('comment', { time: { $lt: Time.getDateNumber() - deleteDays } });
  await ctx.database.remove('comment', { bid: { $in: bottles.map((bottle) => bottle.id) } });
  \<close>
  \<open>today\<close> is the day number \<open>Time.getDateNumber()\<close> returns while the sweep runs; the
  difference is taken in the integers, as the source's numbers do. The argument is a
  positive integer or missing; a missing one and \<open>0\<close> are both falsy.
\<close>

definition older :: "nat \<Rightarrow> nat \<Rightarrow> nat \<Rightarrow> bool" where
  "older today days t = (int t < int today - int days)"

definition deleteExpired :: "config \<Rightarrow> session \<Rightarrow> nat option \<Rightarrow> nat \<Rightarrow> state \<Rightarrow> reply \<times> state" where
  "deleteExpired cfg ses days today s =
     (case days of
        None \<Rightarrow> (NeedDays, s)
      | Some d \<Rightarrow>
          if d = 0 then (NeedDays, s)
          else if userId ses \<notin> set (manager cfg) then (MayNotExpire, s)
          else
            (let old = filter (\<lambda>b. older today d (b_time b)) (bottles s)
             in if length old < 1 then (NothingExpired, s)
                else
                  (ExpiredDeleted,
                   removeComment (\<lambda>c. c_bid c \<in> set (map b_id old))
                     (removeComment (\<lambda>c. older today d (c_time c))
                        (removeBottle (\<lambda>b. older today d (b_time b)) s)))))"

subsection \<open>Purging the bottles that cannot be delivered\<close>

text \<open>
  The audit sends every bottle of the range to the caller's channel. What the transport,
  the timers and the caller do is given from outside: \<open>sendOk i k\<close> says whether sending
  bottle \<open>i\<close> succeeds after \<open>k\<close> failures, \<open>delayOk i\<close> and \<open>pauseOk i k\<close> whether the sleep
  after a delivery and the sleep before a retry return (a sleep throws when the plugin is
  unloaded, and the action returns), \<open>confirmed\<close> and \<open>deleteConfirmed\<close> whether the two
  prompts are answered with the expected word.
\<close>

record audit =
  confirmed :: bool
  deleteConfirmed :: bool
  sendOk :: "nat \<Rightarrow> nat \<Rightarrow> bool"
  delayOk :: "nat \<Rightarrow> bool"
  pauseOk :: "nat \<Rightarrow> nat \<Rightarrow> bool"

datatype probe = Delivered | Broken | Stopped

text \<open>
  \<^verbatim>\<open>
  while (true) {
    try { await session.bot.sendMessage(...);
          try { await ctx.sleep(options.delay) } catch { return }
          break
    } catch (e) {
      retry++
      if (retry > config.maxRetry) { brokenBottle.push(id); ...; break }
      try { await ctx.sleep(config.retryInterval) } catch { return }
      continue
    } }
  \<close>
\<close>

function probeBottle :: "nat \<Rightarrow> (nat \<Rightarrow> bool) \<Rightarrow> bool \<Rightarrow> (nat \<Rightarrow> bool) \<Rightarrow> nat \<Rightarrow> probe" where
  "probeBottle mx send delay pause retry =
     (if send retry then (if delay then Delivered else Stopped)
      else if Suc retry > mx then Broken
      else if pause retry then probeBottle mx send delay pause (Suc retry)
      else Stopped)"
  by pat_completeness auto
termination
  by (relation "measure (\<lambda>(mx, send, delay, pause, retry). Suc mx - retry)") auto

declare probeBottle.simps [simp del]

fun findBroken :: "config \<Rightarrow> audit \<Rightarrow> bottle list \<Rightarrow> nat list \<Rightarrow> nat list option" where
  "findBroken cfg au [] broken = Some broken"
| "findBroken cfg au (b # bs) broken =
     (case probeBottle (maxRetry cfg) (sendOk au (b_id b)) (delayOk au (b_id b)) (pauseOk au (b_id b)) 0 of
        Delivered \<Rightarrow> findBroken cfg au bs broken
      | Broken \<Rightarrow> findBroken cfg au bs (broken @ [b_id b])
      | Stopped \<Rightarrow> None)"

text \<open>
  \<^verbatim>\<open>
  if (!config.manager.includes(session.event.user.id)) return <no permission>
  else if (start && end === undefined) return <give the end>
  else if (start > end) return <start after end>
  ... if (confirm !== <yes>) return <cancelled>
  let bottles = await ctx.database.get('bottle', { id: start ? { $gte: start, $lte: end } : {} });
  for (let bottle of bottles) { ... }
  if (brokenBottle.length === 0) return <none broken>
  ... if (reply === <delete>) { await ctx.database.remove("bottle", { id: { $in: brokenBottle } }) ... }
  \<close>
  A comparison with a missing argument is false.
\<close>

definition truthy :: "nat option \<Rightarrow> bool" where
  "truthy a = (case a of None \<Rightarrow> False | Some n \<Rightarrow> n \<noteq> 0)"

definition inRange :: "nat option \<Rightarrow> nat option \<Rightarrow> nat \<Rightarrow> bool" where
  "inRange start end' i =
     (if truthy start
      then (case (start, end') of (Some a, Some b) \<Rightarrow> a \<le> i \<and> i \<le> b | _ \<Rightarrow> False)
      else True)"

definition deleteBroken :: "config \<Rightarrow> session \<Rightarrow> nat option \<Rightarrow> nat option \<Rightarrow> audit \<Rightarrow> state \<Rightarrow> reply \<times> state" where
  "deleteBroken cfg ses start end' au s =
     (if userId ses \<notin> set (manager cfg) then (MayNotPurge, s)
      else if truthy start \<and> end' = None then (NeedEnd, s)
      else if (case (start, end') of (Some a, Some b) \<Rightarrow> a > b | _ \<Rightarrow> False) then (StartAfterEnd, s)
      else if \<not> confirmed au then (NotConfirmed, s)
      else
        (case findBroken cfg au (filter (\<lambda>b. inRange start end' (b_id b)) (bottles s)) [] of
           None \<Rightarrow> (Silent, s)
         | Some broken \<Rightarrow>
             if length broken = 0 then (NoneBroken, s)
             else if deleteConfirmed au then (Purged, removeBottle (\<lambda>b. b_id b \<in> set broken) s)
             else (PurgeCancelled, s)))"

section \<open>Throwing a bottle\<close>

text \<open>
  \<open>content.replace(/<.*?>/g, '')\<close> removes every shortest \<open><...>\<close> that holds no line
  break; \<open>includesStr\<close> is the substring test of the source's strings.
\<close>

fun closeTag :: "string \<Rightarrow> string option" where
  "closeTag [] = None"
| "closeTag (c # cs) =
     (if c = CHR ''>'' then Some cs
      else if c = CHR 0x0A \<or> c = CHR 0x0D then None
      else closeTag cs)"

function stripTags :: "string \<Rightarrow> string" where
  "stripTags [] = []"
| "stripTags (c # cs) =
     (if c = CHR ''<''
      then (case closeTag cs of Some r \<Rightarrow> stripTags r | None \<Rightarrow> c # stripTags cs)
      else c # stripTags cs)"
  by pat_completeness auto
termination
proof -
  have shorter: "closeTag cs = Some r \<Longrightarrow> length r < length cs" for cs r
    by (induction cs) (auto split: if_splits)
  show ?thesis
    by (relation "measure length") (auto dest: shorter)
qed

fun includesStr :: "string \<Rightarrow> string \<Rightarrow> bool" where
  "includesStr [] p = (p = [])"
| "includesStr (c # cs) p = (take (length p) (c # cs) = p \<or> includesStr cs p)"

definition falsy :: "string option \<Rightarrow> bool" where
  "falsy a = (case a of None \<Rightarrow> True | Some t \<Rightarrow> t = [])"

record quote =
  q_user :: string
  q_content :: string

text \<open>
  What is outside the plugin while a bottle or a comment is posted: the day number of the
  clock; \<open>storeTry k\<close>, the outcome of fetching and rewriting the media after \<open>k\<close> failed
  attempts (\<open>None\<close> when the attempt throws, otherwise the rewritten text and the files
  written); \<open>previewOk k\<close>, whether sending the preview succeeds after \<open>k\<close> failures;
  whether the sleep between two attempts returns; for a comment, the number of connected
  bots, whether the notification of the owner ends without an exception, and whether the
  plain confirmation is sent.
\<close>

record world =
  today :: nat
  storeTry :: "nat \<Rightarrow> (string \<times> string list) option"
  storePause :: "nat \<Rightarrow> bool"
  previewOk :: "nat \<Rightarrow> bool"
  previewPause :: "nat \<Rightarrow> bool"
  bots :: nat
  notifyOk :: bool
  plainOk :: bool

datatype stored = Stored string "string list" | GaveUp | Halted

text \<open>
  \<^verbatim>\<open>
  let retry = 0
  while (true) {
    try { ... fetch every media element and rewrite its src ...; break }
    catch (e) {
      retry++
      if (retry > config.maxRetry) { ...; await ctx.database.remove(...); return }
      try { await ctx.sleep(config.retryInterval) } catch { return }
      continue
    } }
  \<close>
\<close>

function storeAssets :: "nat \<Rightarrow> (nat \<Rightarrow> (string \<times> string list) option) \<Rightarrow> (nat \<Rightarrow> bool) \<Rightarrow> nat \<Rightarrow> stored" where
  "storeAssets mx attempt pause retry =
     (case attempt retry of
        Some (text, written) \<Rightarrow> Stored text written
      | None \<Rightarrow>
          if Suc retry > mx then GaveUp
          else if pause retry then storeAssets mx attempt pause (Suc retry)
          else Halted)"
  by pat_completeness auto
termination
  by (relation "measure (\<lambda>(mx, attempt, pause, retry). Suc mx - retry)") auto

declare storeAssets.simps [simp del]

text \<open>
  \<^verbatim>\<open>
  while (true) {
    try { ... await session.bot.sendMessage(session.event.channel.id, <the preview>); break }
    catch (e) {
      retry++
      if (retry > config.maxRetry) {
        ...; await ctx.database.remove('bottle', { id: preview.id }); ...; break }
      try { await ctx.sleep(config.retryInterval) } catch { return }
      continue
    } }
  \<close>
\<close>

function previewBottle :: "nat \<Rightarrow> (nat \<Rightarrow> bool) \<Rightarrow> (nat \<Rightarrow> bool) \<Rightarrow> nat \<Rightarrow> nat \<Rightarrow> state \<Rightarrow> reply \<times> state" where
  "previewBottle mx send pause i retry s =
     (if send retry then (PreviewSent, s)
      else if Suc retry > mx then (PreviewFailed, removeBottle (\<lambda>b. b_id b = i) s)
      else if pause retry then previewBottle mx send pause i (Suc retry) s
      else (Silent, s))"
  by pat_completeness auto
termination
  by (relation "measure (\<lambda>(mx, send, pause, i, retry, s). Suc mx - retry)") auto

declare previewBottle.simps [simp del]

text \<open>
  The action of \<open>throw a bottle\<close>. The row is created before the media are stored and
  before the length is checked:
  \<^verbatim>\<open>
  if (!isNaN(+options.title)) return <a name may not be a number>
  if (!message && !quote) return <give a content>
  if ((quote && !config.manager.includes(session.event.user.id)
       && quote.user.id !== session.event.user.id) && !config.allowDropOthers) return <no permission>
  ...
  content = config.allowPic ? content : content.replace(/<.*?>/g, '')
  if (content.length < 1) return <too short>
  let preview = await ctx.database.create('bottle', {..., commentCount: 0, time: Time.getDateNumber(),
                                                      name: options.title ?? ""});
  if (config.saveMode === 'file') {...} else if (config.saveMode === 'base64') {...}
  if (content.length > config.maxLength) return <too long>
  await ctx.database.set("bottle", { id: preview.id }, { content })
  if (config.preview) {...} else { return <thrown> }
  \<close>
\<close>

definition throwBottle ::
  "library \<Rightarrow> config \<Rightarrow> session \<Rightarrow> string option \<Rightarrow> string option \<Rightarrow> quote option \<Rightarrow> world \<Rightarrow> state
     \<Rightarrow> reply \<times> state" where
  "throwBottle lib cfg ses title message qt w s =
     (if (case title of None \<Rightarrow> False | Some t \<Rightarrow> isNumber lib t) then (NameIsNumeric, s)
      else if falsy message \<and> qt = None then (NeedContent, s)
      else if (case qt of None \<Rightarrow> False | Some q \<Rightarrow>
                 userId ses \<notin> set (manager cfg) \<and> q_user q \<noteq> userId ses) \<and> \<not> allowDropOthers cfg
        then (MayNotDropOthers, s)
      else
        (let uid = (if selfDrop cfg then userId ses
                    else (case qt of Some q \<Rightarrow> q_user q | None \<Rightarrow> userId ses));
             content0 = (case qt of Some q \<Rightarrow> q_content q
                         | None \<Rightarrow> (case message of Some m \<Rightarrow> m | None \<Rightarrow> []));
             content = (if allowPic cfg then content0 else stripTags content0)
         in if length content < 1 then (TooShort, s)
            else
              (let (pv, s1) =
                     createBottle
                       \<lparr>b_id = 0, b_name = (case title of Some t \<Rightarrow> t | None \<Rightarrow> []), b_uid = uid,
                        b_gid = guildId ses, b_cnid = channelId ses, b_username = s_username ses,
                        b_content = content, b_isHot = 0, b_commentCount = 0, b_time = today w\<rparr> s
               in case (case saveMode cfg of
                          Url \<Rightarrow> Stored content []
                        | Base64 \<Rightarrow> storeAssets (maxRetry cfg) (storeTry w) (storePause w) 0
                        | File \<Rightarrow> storeAssets (maxRetry cfg) (storeTry w) (storePause w) 0) of
                    GaveUp \<Rightarrow> (AssetsNotStored, removeBottle (\<lambda>b. b_id b = b_id pv) s1)
                  | Halted \<Rightarrow> (Silent, s1)
                  | Stored text written \<Rightarrow>
                      (let s2 = s1\<lparr>files := files s1 @ written\<rparr>
                       in if length text > maxLength cfg then (TooLong, s2)
                          else
                            (let s3 = setBottle (\<lambda>b. b_id b = b_id pv) (\<lambda>b. b\<lparr>b_content := text\<rparr>) s2
                             in if preview cfg
                                then previewBottle (maxRetry cfg) (previewOk w) (previewPause w) (b_id pv) 0 s3
                                else (Thrown (b_id pv), s3))))))"

section \<open>Drawing a bottle\<close>

text \<open>
  \<open>pick k\<close> is the random number drawn in the attempt after \<open>k\<close> failures; \<open>drawSend k\<close> and
  \<open>drawSend2 k\<close> are the handles the transport returns for the message and, for a bottle
  with audio or video sent as plain text, for the second message (\<open>None\<close> when the send
  throws). \<open>.limit(l !== 0 ? l : Infinity).offset(l !== 0 ? ((page ?? 1) - 1) * l : 0)\<close> is
  \<open>paginate\<close>; a page is a positive integer.
\<close>

record drawing =
  pick :: "nat \<Rightarrow> nat"
  drawSend :: "nat \<Rightarrow> string option"
  drawSend2 :: "nat \<Rightarrow> string option"
  drawPause :: "nat \<Rightarrow> bool"

definition paginate :: "nat \<Rightarrow> nat option \<Rightarrow> 'a list \<Rightarrow> 'a list" where
  "paginate lim page xs =
     (if lim \<noteq> 0 then take lim (drop (((case page of None \<Rightarrow> 1 | Some p \<Rightarrow> p) - 1) * lim) xs) else xs)"

definition remember :: "string \<Rightarrow> nat \<Rightarrow> state \<Rightarrow> state" where
  "remember h i s = s\<lparr>bottleMap := (h, i) # filter (\<lambda>e. fst e \<noteq> h) (bottleMap s)\<rparr>"

definition hasAudioVideo :: "string \<Rightarrow> bool" where
  "hasAudioVideo text = (includesStr text ''<audio'' \<or> includesStr text ''<video'')"

text \<open>
  One pass of the loop picks a bottle, reads the page of its comments, and sends; a pass
  that throws is retried with a fresh pick:
  \<^verbatim>\<open>
  while (true) {
    const bottle = bottles[Random.int(0, bottles.length)];
    ... const comments = await ctx.database.select('comment').where({ bid: id }).orderBy('cid', 'asc')
          .limit(...).offset(...).execute()
    try {
      if (config.messageRecord) { bottleMap.set((await session.bot.sendMessage(...))[0], bottle.id) }
      else { bottleMap.set((await session.bot.sendMessage(..., result))[0], bottle.id);
             if (<audio or video>) bottleMap.set((await session.bot.sendMessage(..., result2))[0], bottle.id); }
      break
    } catch (e) {
      retry++
      if (retry > config.maxRetry) { ...; return <sending failed> }
      try { await ctx.sleep(config.retryInterval) } catch { return }
      continue
    } }
  \<close>
\<close>

definition commentPage :: "config \<Rightarrow> nat option \<Rightarrow> state \<Rightarrow> nat \<Rightarrow> comment list" where
  "commentPage cfg page s i =
     paginate (commentLimit cfg) page (sort_key c_cid (getComment s (\<lambda>c. c_bid c = i)))"

definition sendDrawn :: "config \<Rightarrow> drawing \<Rightarrow> bottle \<Rightarrow> nat \<Rightarrow> state \<Rightarrow> bool \<times> state" where
  "sendDrawn cfg e b retry s =
     (case drawSend e retry of
        None \<Rightarrow> (False, s)
      | Some h \<Rightarrow>
          (let s1 = remember h (b_id b) s
           in if \<not> messageRecord cfg \<and> hasAudioVideo (b_content b)
              then (case drawSend2 e retry of
                      None \<Rightarrow> (False, s1)
                    | Some h2 \<Rightarrow> (True, remember h2 (b_id b) s1))
              else (True, s1)))"

function drawLoop :: "config \<Rightarrow> drawing \<Rightarrow> bottle list \<Rightarrow> nat option \<Rightarrow> nat \<Rightarrow> state \<Rightarrow> reply \<times> state" where
  "drawLoop cfg e bs page retry s =
     (if bs = [] then (Crashed, s)
      else
        (let b = bs ! (pick e retry mod length bs);
             cs = commentPage cfg page s (b_id b);
             r = sendDrawn cfg e b retry s
         in if fst r then (Drawn (b_id b) cs, snd r)
            else if Suc retry > maxRetry cfg then (DrawFailed, snd r)
            else if drawPause e retry then drawLoop cfg e bs page (Suc retry) (snd r)
            else (Silent, snd r)))"
  by pat_completeness auto
termination
  by (relation "measure (\<lambda>(cfg, e, bs, page, retry, s). Suc (maxRetry cfg) - retry)") auto

declare drawLoop.simps [simp del]

text \<open>
  \<^verbatim>\<open>
  if (!bottleId) { bottles = await ctx.database.get("bottle", {})
                   if (!bottles || bottles.length < 1) return <no bottles> }
  else {
    if (isNaN(+bottleId)) {
      bottles = await ctx.database.select('bottle').where({name: {$regex: new RegExp(bottleId)}})
        .orderBy('id', 'asc')
        .limit(config.bottleLimit !== 0 ? config.bottleLimit : Infinity)
        .offset(config.bottleLimit !== 0 ? ((page ?? 1) - 1) * config.bottleLimit : 0).execute()
    } else { bottles = await ctx.database.get("bottle", {id: +bottleId}) }
    if (!bottles || bottles.length < 1) return <no such bottle>
    else if (bottles.length > 1) return <the list of id and name of these bottles>
  }
  \<close>
\<close>

definition nameMatches :: "(string \<Rightarrow> bool) \<Rightarrow> state \<Rightarrow> bottle list" where
  "nameMatches m s = sort_key b_id (filter (\<lambda>b. m (b_name b)) (bottles s))"

definition drawBottle :: "library \<Rightarrow> config \<Rightarrow> string option \<Rightarrow> nat option \<Rightarrow> drawing \<Rightarrow> state \<Rightarrow> reply \<times> state" where
  "drawBottle lib cfg bottleId page e s =
     (case bottleId of
        None \<Rightarrow> if length (bottles s) < 1 then (NoBottles, s) else drawLoop cfg e (bottles s) page 0 s
      | Some t \<Rightarrow>
          if t = [] then (if length (bottles s) < 1 then (NoBottles, s) else drawLoop cfg e (bottles s) page 0 s)
          else
            (case (case toNumber lib t of
                     NaN \<Rightarrow> (case regexTest lib t of
                               None \<Rightarrow> None
                             | Some m \<Rightarrow> Some (paginate (bottleLimit cfg) page (nameMatches m s)))
                   | Id n \<Rightarrow> Some (getBottle s n)
                   | OtherNumber \<Rightarrow> Some []) of
               None \<Rightarrow> (Crashed, s)
             | Some bs \<Rightarrow>
                 if length bs < 1 then (NoSuchBottle, s)
                 else if length bs > 1 then (Listing (map (\<lambda>b. (b_id b, b_name b)) bs), s)
                 else drawLoop cfg e bs page 0 s))"

section \<open>Commenting a bottle\<close>

text \<open>
  The two quotation marks the source wraps a comment in, written by their bytes.
\<close>

definition ldquo :: string where
  "ldquo = [CHR 0xE2, CHR 0x80, CHR 0x9C]"

definition rdquo :: string where
  "rdquo = [CHR 0xE2, CHR 0x80, CHR 0x9D]"

text \<open>
  \<open>let cid = data.length === 0 ? 1 : Math.max(...data.map(c => c.cid)) + 1\<close>, where
  \<open>data\<close> are the comments of the bottle.
\<close>

definition nextCid :: "state \<Rightarrow> nat \<Rightarrow> nat" where
  "nextCid s i =
     (let data = getComment s (\<lambda>c. c_bid c = i)
      in if length data = 0 then 1 else Max (set (map c_cid data)) + 1)"

text \<open>
  The preview of a comment; the counter of the bottle is raised inside the \<open>try\<close>, after
  the send, from the row read back (a missing row makes \<open>[0].commentCount\<close> throw):
  \<^verbatim>\<open>
  while (true) {
    try {
      await session.bot.sendMessage(session.event.channel.id, <the preview>);
      await ctx.database.set("bottle", {id},
        {commentCount: (await ctx.database.get("bottle", {id}))[0].commentCount + 1})
      break
    } catch (e) {
      retry++
      if (retry > config.maxRetry) {
        ...; await ctx.database.remove('comment', { bid: id, cid: cid }); ...; break }
      try { await ctx.sleep(config.retryInterval) } catch { return }
    } }
  \<close>
\<close>

function previewComment ::
  "nat \<Rightarrow> (nat \<Rightarrow> bool) \<Rightarrow> (nat \<Rightarrow> bool) \<Rightarrow> nat \<Rightarrow> nat \<Rightarrow> nat \<Rightarrow> state \<Rightarrow> reply \<times> state" where
  "previewComment mx send pause i cid retry s =
     (case (if send retry then getBottle s i else []) of
        b # _ \<Rightarrow>
          (PreviewSent, setBottle (\<lambda>r. b_id r = i) (\<lambda>r. r\<lparr>b_commentCount := b_commentCount b + 1\<rparr>) s)
      | [] \<Rightarrow>
          if Suc retry > mx then (PreviewFailed, removeComment (\<lambda>c. c_bid c = i \<and> c_cid c = cid) s)
          else if pause retry then previewComment mx send pause i cid (Suc retry) s
          else (Silent, s))"
  by pat_completeness auto
termination
  by (relation "measure (\<lambda>(mx, send, pause, i, cid, retry, s). Suc mx - retry)") auto

declare previewComment.simps [simp del]

text \<open>
  The action. \<open>rid\<close> is \<open>parseInt(options.rid) || 0\<close>. When the caller only quotes a
  message, \<open>ct\<close> is missing and \<open>ct.includes\<close> (or \<open>ct.replace\<close>) throws. On a platform
  other than \<open>qq\<close> the owner is notified once for every bot, and a reply gets its prefix
  once for every bot; an exception out of the notification ends the action before
  anything is written.
  \<^verbatim>\<open>
  const bottle = (await ctx.database.get('bottle', { id: id }))[0];
  if (!bottle) return <no such bottle>
  if (rid > 0) { comment = (await ctx.database.get('comment', { bid: id, cid: replyId }))[0];
                 if (!comment) return <no such comment> }
  if (!ct && !quote) return <give a content>
  ...
  ct = config.allowPic ? ct : ct.replace(/<.*?>/g, '');
  if (ct.includes("<audio ") || ct.includes("<video ")) return <no audio or video>
  if (ct.length > config.maxLength) return <too long>
  if (ct.length < 1) return <too short>
  ct = <left quote> + ct + <right quote>
  if (session.platform !== "qq") { for (const bot of ctx.bots) { ... } }
  let data = await ctx.database.get('comment', { bid: id });
  let cid = data.length === 0 ? 1 : Math.max(...data.map(c => c.cid)) + 1;
  let preview = await ctx.database.create('comment', { cid: cid, bid: id, ... });
  if (config.saveMode === "file") {...} else if (config.saveMode === "base64") {...}
  if (config.preview) {...}
  else {
    await session.bot.sendMessage(session.event.channel.id, <commented>)
    await ctx.database.set("bottle", {id},
      {commentCount: (await ctx.database.get("bottle", {id})).length + 1})
  }
  \<close>
\<close>

definition writeComment :: "config \<Rightarrow> session \<Rightarrow> world \<Rightarrow> nat \<Rightarrow> string \<Rightarrow> string \<Rightarrow> state \<Rightarrow> reply \<times> state" where
  "writeComment cfg ses w i uid text s =
     (let cid = nextCid s i;
          (pv, s1) =
            createComment
              \<lparr>c_id = 0, c_cid = cid, c_bid = i, c_uid = uid, c_gid = guildId ses,
               c_cnid = channelId ses, c_username = s_username ses,
               c_content = text, c_time = today w\<rparr> s
      in case (case saveMode cfg of
                 Url \<Rightarrow> Stored text []
               | Base64 \<Rightarrow> storeAssets (maxRetry cfg) (storeTry w) (storePause w) 0
               | File \<Rightarrow> storeAssets (maxRetry cfg) (storeTry w) (storePause w) 0) of
           GaveUp \<Rightarrow> (AssetsNotStored, removeComment (\<lambda>c. c_id c = c_id pv) s1)
         | Halted \<Rightarrow> (Silent, s1)
         | Stored text' written \<Rightarrow>
             (let s2 = setComment (\<lambda>c. c_id c = c_id pv) (\<lambda>c. c\<lparr>c_content := text'\<rparr>)
                         (s1\<lparr>files := files s1 @ written\<rparr>)
              in if preview cfg
                 then previewComment (maxRetry cfg) (previewOk w) (previewPause w) i cid 0 s2
                 else if \<not> plainOk w then (Crashed, s2)
                 else
                   (Commented,
                    setBottle (\<lambda>r. b_id r = i)
                      (\<lambda>r. r\<lparr>b_commentCount := int (length (getBottle s2 i)) + 1\<rparr>) s2)))"

definition commentBottle ::
  "library \<Rightarrow> config \<Rightarrow> session \<Rightarrow> nat \<Rightarrow> string option \<Rightarrow> int \<Rightarrow> quote option \<Rightarrow> bool \<Rightarrow> world \<Rightarrow> state
     \<Rightarrow> reply \<times> state" where
  "commentBottle lib cfg ses i ct rid qt root w s =
     (case getBottle s i of
        [] \<Rightarrow> (NoBottleToComment, s)
      | b # _ \<Rightarrow>
          (case (if rid > 0
                 then (case getComment s (\<lambda>c. c_bid c = i \<and> c_cid c = nat rid) of
                         [] \<Rightarrow> None
                       | c # _ \<Rightarrow> Some (Some c))
                 else Some None) of
             None \<Rightarrow> (NoCommentToReply, s)
           | Some target \<Rightarrow>
               if falsy ct \<and> qt = None then (NeedContent, s)
               else
                 (case ct of
                    None \<Rightarrow> (Crashed, s)
                  | Some text0 \<Rightarrow>
                      (let uid = (if root
                                  then (case qt of Some q \<Rightarrow> q_user q | None \<Rightarrow> userId ses)
                                  else userId ses);
                           text1 = (if allowPic cfg then text0 else stripTags text0)
                       in if includesStr text1 ''<audio '' \<or> includesStr text1 ''<video '' then (NoAudioVideo, s)
                          else if length text1 > maxLength cfg then (TooLong, s)
                          else if length text1 < 1 then (TooShort, s)
                          else
                            (let text2 = ldquo @ text1 @ rdquo;
                                 text3 = (case target of
                                            Some c \<Rightarrow>
                                              if platform ses \<noteq> ''qq''
                                              then ((\<lambda>t. replyPrefix lib (nat rid) (c_username c) @ t) ^^ bots w) text2
                                              else text2
                                          | None \<Rightarrow> text2)
                             in if platform ses \<noteq> ''qq'' \<and> \<not> notifyOk w then (Crashed, s)
                                else writeComment cfg ses w i uid text3 s)))))"

section \<open>The start of the plugin\<close>







section \<open>Sample data\<close>

text \<open>
  A library whose numbers are the string \<open>7\<close>, whose patterns match by inclusion and
  whose parser sees one local image in a text that starts with \<open><img\<close>; a configuration;
  two callers, of whom \<open>root\<close> is a manager; a few rows.
\<close>

definition lib0 :: library where
  "lib0 = \<lparr>toNumber = (\<lambda>t. if t = ''7'' then Id 7 else NaN),
           regexTest = (\<lambda>p. Some (\<lambda>nm. includesStr nm p)),
           hparse = (\<lambda>t. if startsWith t ''<img'' then [\<lparr>e_type = ''img'', e_src = ''file:///a.png''\<rparr>] else []),
           replyPrefix = (\<lambda>n u. ''re: '')\<rparr>"

definition cfg0 :: config where
  "cfg0 = \<lparr>manager = [''root''], allowPic = True, allowDropOthers = False, selfDrop = False,
           preview = True, maxRetry = 2, maxLength = 5, saveMode = Url, messageRecord = True,
           commentLimit = 0, bottleLimit = 0\<rparr>"

definition alice :: session where
  "alice = \<lparr>userId = ''alice'', s_username = ''Alice'', guildId = ''g'', channelId = ''c'', platform = ''qq''\<rparr>"

definition root :: session where
  "root = \<lparr>userId = ''root'', s_username = ''Root'', guildId = ''g'', channelId = ''c'', platform = ''qq''\<rparr>"

definition bottle1 :: bottle where
  "bottle1 = \<lparr>b_id = 1, b_name = ''ab'', b_uid = ''bob'', b_gid = ''g'', b_cnid = ''c'', b_username = ''Bob'',
              b_content = ''hello'', b_isHot = 0, b_commentCount = 0, b_time = 100\<rparr>"

definition store1 :: state where
  "store1 = \<lparr>bottles = [bottle1], comments = [], files = [], bottleMap = []\<rparr>"

definition cfgPlain :: config where
  "cfgPlain = cfg0\<lparr>preview := False\<rparr>"

definition cfgPage :: config where
  "cfgPage = cfg0\<lparr>bottleLimit := 2\<rparr>"

definition world0 :: world where
  "world0 = \<lparr>today = 100, storeTry = (\<lambda>k. None), storePause = (\<lambda>k. True), previewOk = (\<lambda>k. True),
             previewPause = (\<lambda>k. True), bots = 1, notifyOk = True, plainOk = True\<rparr>"

definition worldDown :: world where
  "worldDown = world0\<lparr>previewOk := (\<lambda>k. False)\<rparr>"

definition comment1 :: comment where
  "comment1 = \<lparr>c_id = 1, c_cid = 1, c_bid = 1, c_uid = ''alice'', c_gid = ''g'', c_cnid = ''c'',
               c_username = ''Alice'', c_content = ldquo @ ''hi'' @ rdquo, c_time = 100\<rparr>"

definition comment2 :: comment where
  "comment2 = comment1\<lparr>c_id := 2, c_cid := 2\<rparr>"

definition bottle2 :: bottle where
  "bottle2 = \<lparr>b_id = 2, b_name = ''abc'', b_uid = ''alice'', b_gid = ''g'', b_cnid = ''c'', b_username = ''Alice'',
              b_content = ''<img src=\"file:///a.png\"/>'', b_isHot = 0, b_commentCount = - 1, b_time = 10\<rparr>"

definition store3 :: state where
  "store3 = \<lparr>bottles = [bottle1, bottle1\<lparr>b_id := 2, b_name := ''abc''\<rparr>, bottle1\<lparr>b_id := 3, b_name := ''xab''\<rparr>],
             comments = [], files = [], bottleMap = []\<rparr>"

definition store12 :: state where
  "store12 = \<lparr>bottles = [bottle1\<lparr>b_commentCount := 2\<rparr>], comments = [comment1, comment2], files = [],
              bottleMap = []\<rparr>"

definition storeImg :: state where
  "storeImg = \<lparr>bottles = [bottle2], comments = [comment1\<lparr>c_bid := 2\<rparr>], files = [''file:///a.png''],
               bottleMap = []\<rparr>"

definition auditDown :: audit where
  "auditDown = \<lparr>confirmed = True, deleteConfirmed = True, sendOk = (\<lambda>i k. False), delayOk = (\<lambda>i. True),
                pauseOk = (\<lambda>i k. True)\<rparr>"

definition draw0 :: drawing where
  "draw0 = \<lparr>pick = (\<lambda>k. 0), drawSend = (\<lambda>k. Some ''m1''), drawSend2 = (\<lambda>k. Some ''m2''),
            drawPause = (\<lambda>k. True)\<rparr>"

definition storeC :: state where
  "storeC = store1\<lparr>bottles := [bottle1\<lparr>b_commentCount := 1\<rparr>], comments := [comment1]\<rparr>"

text \<open>
  A history: on day \<open>10\<close> two bottles are thrown into the empty store and the first one is
  commented; the audit then finds bottle \<open>1\<close> undeliverable and purges it. \<open>storeLegacy\<close> is
  the table \<open>storeOrphan\<close> as an earlier revision of the plugin, which has the same purge and
  no counter, leaves it to the first start of this one: the new column holds \<open>-1\<close>.
\<close>

definition storeEmpty :: state where
  "storeEmpty = \<lparr>bottles = [], comments = [], files = [], bottleMap = []\<rparr>"

definition world10 :: world where
  "world10 = world0\<lparr>today := 10\<rparr>"

definition auditOne :: audit where
  "auditOne = auditDown\<lparr>sendOk := (\<lambda>i k. i \<noteq> 1)\<rparr>"

definition thrownA :: bottle where
  "thrownA = \<lparr>b_id = 1, b_name = [], b_uid = ''alice'', b_gid = ''g'', b_cnid = ''c'', b_username = ''Alice'',
              b_content = ''aa'', b_isHot = 0, b_commentCount = 0, b_time = 10\<rparr>"

definition thrownB :: bottle where
  "thrownB = thrownA\<lparr>b_id := 2, b_content := ''bb''\<rparr>"

definition commentA :: comment where
  "commentA = comment1\<lparr>c_time := 10\<rparr>"

definition storeTwo :: state where
  "storeTwo = storeEmpty\<lparr>bottles := [thrownA\<lparr>b_commentCount := 1\<rparr>, thrownB], comments := [commentA]\<rparr>"

definition storeOrphan :: state where
  "storeOrphan = storeEmpty\<lparr>bottles := [thrownB], comments := [commentA]\<rparr>"


section \<open>What the properties speak about\<close>

text \<open>The numbers \<open>cid\<close> in use under a bottle, and the number of comments a bottle has.\<close>

definition cidSet :: "state \<Rightarrow> nat \<Rightarrow> nat set" where
  "cidSet s i = c_cid ` set (getComment s (\<lambda>c. c_bid c = i))"

text \<open>
  The age of a row in days on day \<open>now\<close>, and the ids of the bottles that are older than
  \<open>d\<close> days.
\<close>

definition age :: "nat \<Rightarrow> nat \<Rightarrow> int" where
  "age now t = int now - int t"

definition expiredIds :: "nat \<Rightarrow> nat \<Rightarrow> state \<Rightarrow> nat set" where
  "expiredIds now d s = set (map b_id (filter (\<lambda>b. int d < age now (b_time b)) (bottles s)))"

definition commentsOf :: "state \<Rightarrow> nat \<Rightarrow> int" where
  "commentsOf s i = int (length (getComment s (\<lambda>c. c_bid c = i)))"

section \<open>Properties\<close>

subsection \<open>Naming and featuring: the bottle is looked up first\<close>

text \<open>
  C9. In the set-featured and rename operations the existence of the bottle is checked
  before the permission of the caller: with an id that no bottle has, every caller,
  manager or not, gets the not-found answer; with an id that a bottle has, a caller who is
  not a manager gets the permission answer from set-featured and never the not-found
  answer from rename, so the two kinds of id can be told apart. In the not-found and the
  permission-denied case alike the state is the one before.
\<close>

theorem existence_before_permission:
  "(getBottle s i = [] \<longrightarrow>
      nameBottle lib cfg ses i nm s = (NoSuchBottle, s) \<and> setHotBottle cfg ses i s = (NoSuchBottle, s))
   \<and> (getBottle s i \<noteq> [] \<and> userId ses \<notin> set (manager cfg) \<longrightarrow>
      setHotBottle cfg ses i s = (ManagerOnlyHot, s)
      \<and> fst (nameBottle lib cfg ses i nm s) \<noteq> NoSuchBottle)
   \<and> (fst (nameBottle lib cfg ses i nm s) \<in> {NoSuchBottle, ManagerOnlyName} \<longrightarrow>
      snd (nameBottle lib cfg ses i nm s) = s)
   \<and> (fst (setHotBottle cfg ses i s) \<in> {NoSuchBottle, ManagerOnlyHot} \<longrightarrow>
      snd (setHotBottle cfg ses i s) = s)"
  by (auto simp: nameBottle_def setHotBottle_def split: list.splits if_splits)

theorem existence_before_permission_witness:
  "getBottle store1 2 = [] \<and> nameBottle lib0 cfg0 alice 2 ''x'' store1 = (NoSuchBottle, store1)
   \<and> setHotBottle cfg0 alice 2 store1 = (NoSuchBottle, store1)
   \<and> getBottle store1 1 \<noteq> [] \<and> userId alice \<notin> set (manager cfg0)
   \<and> setHotBottle cfg0 alice 1 store1 = (ManagerOnlyHot, store1)
   \<and> nameBottle lib0 cfg0 alice 1 ''x'' store1 = (ManagerOnlyName, store1)"
  using existence_before_permission [of store1 2 lib0 cfg0 alice "''x''"]
    existence_before_permission [of store1 1 lib0 cfg0 alice "''x''"]
  by (simp add: getBottle_def store1_def bottle1_def cfg0_def alice_def nameBottle_def)

subsection \<open>Drawing a bottle writes no table\<close>

lemma sendDrawn_tables:
  "bottles (snd (sendDrawn cfg e b k s)) = bottles s \<and> comments (snd (sendDrawn cfg e b k s)) = comments s
   \<and> files (snd (sendDrawn cfg e b k s)) = files s"
  by (simp add: sendDrawn_def remember_def Let_def split: option.splits)

lemma drawLoop_tables:
  "bottles (snd (drawLoop cfg e bs page k s)) = bottles s \<and> comments (snd (drawLoop cfg e bs page k s)) = comments s
   \<and> files (snd (drawLoop cfg e bs page k s)) = files s"
proof (induction cfg e bs page k s rule: drawLoop.induct)
  case (1 cfg e bs page retry s)
  show ?case
    using 1 sendDrawn_tables
    by (subst (1 2 3) drawLoop.simps) (simp add: Let_def)
qed

text \<open>
  C10. Drawing a bottle only reads the persistent state: whatever the arguments, the
  transport and the timers do, and however the action ends (a bottle delivered, an answer
  that nothing was found, a list of names, the retries used up, an exception), the bottle
  table, the comment table and the asset directory after it are those before it. Only
  the in-memory map from message handles to bottles may grow.
\<close>

theorem draw_reads_only:
  "bottles (snd (drawBottle lib cfg bottleId page e s)) = bottles s
   \<and> comments (snd (drawBottle lib cfg bottleId page e s)) = comments s
   \<and> files (snd (drawBottle lib cfg bottleId page e s)) = files s"
  by (simp add: drawBottle_def drawLoop_tables split: option.splits number.splits)

subsection \<open>The comment counter\<close>

text \<open>
  C1. The claim: whenever the insertions and deletions of comments have completed, the
  \<open>commentCount\<close> of every bottle is the number of comment rows whose \<open>bid\<close> is its id.
  The code does not keep this. With the preview switched off, the first comment on a
  bottle that has none sets the counter to \<open>2\<close> (the length of the list of rows read back,
  plus one, where the preview branch takes the counter of the row read back, plus one).
  And deleting a comment never touches the counter: after one comment is posted with the
  preview on (counter \<open>1\<close>, one row) and deleted again, the counter is \<open>1\<close> and no row is left.
\<close>

theorem commentCount_drifts:
  "commentBottle lib0 cfgPlain alice 1 (Some ''hi'') 0 None False world0 store1 =
     (Commented, store1\<lparr>bottles := [bottle1\<lparr>b_commentCount := 2\<rparr>], comments := [comment1]\<rparr>)
   \<and> commentsOf (store1\<lparr>bottles := [bottle1\<lparr>b_commentCount := 2\<rparr>], comments := [comment1]\<rparr>) 1 = 1
   \<and> commentBottle lib0 cfg0 alice 1 (Some ''hi'') 0 None False world0 store1 =
     (PreviewSent, store1\<lparr>bottles := [bottle1\<lparr>b_commentCount := 1\<rparr>], comments := [comment1]\<rparr>)
   \<and> deleteComment lib0 cfg0 alice 1 1
        (store1\<lparr>bottles := [bottle1\<lparr>b_commentCount := 1\<rparr>], comments := [comment1]\<rparr>) =
     (CommentDeleted, store1\<lparr>bottles := [bottle1\<lparr>b_commentCount := 1\<rparr>]\<rparr>)
   \<and> commentsOf (store1\<lparr>bottles := [bottle1\<lparr>b_commentCount := 1\<rparr>]\<rparr>) 1 = 0"
  by code_simp

subsection \<open>A bottle that is too long\<close>

text \<open>
  C3. The claim: a bottle whose content, after its media are stored, is longer than the
  configured maximum is rejected and leaves no row behind. The code creates the row
  first and returns from the length check without removing it (the two failure paths
  around the check, for the assets and for the preview, do remove it). With a maximum of
  \<open>5\<close> and the content \<open>abcdefgh\<close> the answer is that the content is too long, and the
  table holds a second bottle with that content.
\<close>

theorem too_long_bottle_stays:
  "throwBottle lib0 cfg0 alice None (Some ''abcdefgh'') None world0 store1 =
     (TooLong, store1\<lparr>bottles := [bottle1,
        \<lparr>b_id = 2, b_name = [], b_uid = ''alice'', b_gid = ''g'', b_cnid = ''c'', b_username = ''Alice'',
         b_content = ''abcdefgh'', b_isHot = 0, b_commentCount = 0, b_time = 100\<rparr>]\<rparr>)
   \<and> maxLength cfg0 = 5"
  by code_simp

subsection \<open>What goes with a deleted bottle\<close>

text \<open>
  C5. The claim: every operation that deletes a bottle also deletes the comments under
  it and unlinks the local asset files of the bottle and of these comments. The explicit
  deletion does both. The purge of the bottles that could not be delivered removes the
  bottle rows only: the comment under bottle \<open>2\<close> and the image file stay. The expiry
  sweep removes the comments and leaves the file.
\<close>

theorem purge_leaves_comments_and_files:
  "deleteBottle lib0 cfg0 root 2 storeImg =
     (BottleDeleted, storeImg\<lparr>bottles := [], comments := [], files := []\<rparr>)
   \<and> deleteBroken cfg0 root None None auditDown storeImg = (Purged, storeImg\<lparr>bottles := []\<rparr>)
   \<and> map c_bid (comments (storeImg\<lparr>bottles := []\<rparr>)) = [2]
   \<and> files (storeImg\<lparr>bottles := []\<rparr>) = localAssets lib0 (b_content bottle2)
   \<and> deleteExpired cfg0 root (Some 30) 100 storeImg =
     (ExpiredDeleted, storeImg\<lparr>bottles := [], comments := []\<rparr>)
   \<and> files (storeImg\<lparr>bottles := [], comments := []\<rparr>) = localAssets lib0 (b_content bottle2)"
  by code_simp

subsection \<open>The numbering of the comments of a bottle\<close>

text \<open>Keys and numbers given to a new row are not in use.\<close>

lemma foldr_max_ge: "k \<in> set ks \<Longrightarrow> k \<le> foldr max ks (0::nat)"
  by (induction ks) (auto simp: max_def)

lemma nextId_fresh: "k \<in> set ks \<Longrightarrow> k \<noteq> nextId ks"
  using foldr_max_ge [of k ks] by (simp add: nextId_def)

lemma nextCid_fresh:
  "c \<in> set (comments s) \<Longrightarrow> c_bid c = i \<Longrightarrow> c_cid c \<noteq> nextCid s i"
proof -
  assume a: "c \<in> set (comments s)" "c_bid c = i"
  let ?d = "getComment s (\<lambda>c. c_bid c = i)"
  have m: "c_cid c \<in> set (map c_cid ?d)" using a by (auto simp: getComment_def)
  then have "c_cid c \<le> Max (set (map c_cid ?d))" by (intro Max_ge) auto
  moreover have "?d \<noteq> []" using m by auto
  ultimately show ?thesis by (auto simp: nextCid_def Let_def)
qed

lemma nextCid_cidSet:
  "nextCid s i = (if cidSet s i = {} then 1 else Max (cidSet s i) + 1)"
  by (auto simp: nextCid_def cidSet_def Let_def)

lemma previewBottle_cases:
  "previewBottle mx send pause i k s = (r, s') \<Longrightarrow>
     (r = PreviewFailed \<and> s' = removeBottle (\<lambda>b. b_id b = i) s) \<or> ((r = PreviewSent \<or> r = Silent) \<and> s' = s)"
proof (induction mx send pause i k s rule: previewBottle.induct)
  case (1 mx send pause i retry s)
  then show ?case
    by (subst (asm) (2) previewBottle.simps) (auto split: if_splits)
qed

lemma previewBottle_exhausted:
  "k \<le> mx \<Longrightarrow> \<forall>j \<le> mx. \<not> send j \<Longrightarrow> \<forall>j < mx. pause j \<Longrightarrow>
     previewBottle mx send pause i k s = (PreviewFailed, removeBottle (\<lambda>b. b_id b = i) s)"
proof (induction mx send pause i k s rule: previewBottle.induct)
  case (1 mx send pause i retry s)
  then show ?case
    by (subst previewBottle.simps) auto
qed

lemma previewComment_cases:
  "previewComment mx send pause i cid k s = (r, s') \<Longrightarrow>
     (r = PreviewFailed \<and> s' = removeComment (\<lambda>c. c_bid c = i \<and> c_cid c = cid) s)
     \<or> (r = Silent \<and> s' = s)
     \<or> (r = PreviewSent \<and> (\<exists>b bs. getBottle s i = b # bs \<and>
           s' = setBottle (\<lambda>r. b_id r = i) (\<lambda>r. r\<lparr>b_commentCount := b_commentCount b + 1\<rparr>) s))"
proof (induction mx send pause i cid k s rule: previewComment.induct)
  case (1 mx send pause i cid retry s)
  then show ?case
    by (subst (asm) (2) previewComment.simps) (auto split: if_splits list.splits)
qed

lemma previewComment_exhausted:
  "k \<le> mx \<Longrightarrow> \<forall>j \<le> mx. \<not> send j \<Longrightarrow> \<forall>j < mx. pause j \<Longrightarrow>
     previewComment mx send pause i cid k s = (PreviewFailed, removeComment (\<lambda>c. c_bid c = i \<and> c_cid c = cid) s)"
proof (induction mx send pause i cid k s rule: previewComment.induct)
  case (1 mx send pause i cid retry s)
  then show ?case
    by (subst previewComment.simps) auto
qed


lemma fresh_comment_id: "c \<in> set cs \<Longrightarrow> c_id c \<noteq> nextId (map c_id cs)"
  using nextId_fresh [of "c_id c" "map c_id cs"] by auto

lemma set_fresh_id: "map (\<lambda>c. if c_id c = nextId (map c_id cs) then f c else c) cs = cs"
  by (rule map_idI) (auto dest: fresh_comment_id)

lemma remove_fresh_id: "filter (\<lambda>c. c_id c \<noteq> nextId (map c_id cs)) cs = cs"
  by (rule filter_True) (auto dest: fresh_comment_id)

lemma remove_fresh_cid: "filter (\<lambda>c. c_bid c = i \<longrightarrow> c_cid c \<noteq> nextCid s i) (comments s) = comments s"
  by (rule filter_True) (auto dest: nextCid_fresh)

lemma writeComment_outcome:
  assumes "writeComment cfg ses w i uid text s = (r, s')"
  shows "(r = PreviewSent \<or> r = Commented \<or> r = Silent \<or> r = Crashed) \<and>
           (\<exists>c. comments s' = comments s @ [c] \<and> c_bid c = i \<and> c_cid c = nextCid s i)
         \<or> (r = PreviewFailed \<or> r = AssetsNotStored) \<and> comments s' = comments s \<and> bottles s' = bottles s"
proof -
  let ?pv = "\<lparr>c_id = nextId (map c_id (comments s)), c_cid = nextCid s i, c_bid = i, c_uid = uid,
              c_gid = guildId ses, c_cnid = channelId ses, c_username = s_username ses,
              c_content = text, c_time = today w\<rparr>"
  let ?s1 = "s\<lparr>comments := comments s @ [?pv]\<rparr>"
  let ?st = "(case saveMode cfg of
                 Url \<Rightarrow> Stored text []
               | Base64 \<Rightarrow> storeAssets (maxRetry cfg) (storeTry w) (storePause w) 0
               | File \<Rightarrow> storeAssets (maxRetry cfg) (storeTry w) (storePause w) 0)"
  show ?thesis
  proof (cases ?st)
    case GaveUp
    with assms show ?thesis
      by (simp add: writeComment_def createComment_def Let_def removeComment_def remove_fresh_id)
  next
    case Halted
    with assms show ?thesis
      by (auto simp: writeComment_def createComment_def Let_def)
  next
    case (Stored text' written)
    let ?s2 = "setComment (\<lambda>c. c_id c = nextId (map c_id (comments s))) (\<lambda>c. c\<lparr>c_content := text'\<rparr>)
                 (?s1\<lparr>files := files ?s1 @ written\<rparr>)"
    have c2: "comments ?s2 = comments s @ [?pv\<lparr>c_content := text'\<rparr>]"
      by (simp add: setComment_def set_fresh_id)
    have b2: "bottles ?s2 = bottles s"
      by (simp add: setComment_def)
    show ?thesis
    proof (cases "preview cfg")
      case True
      with assms Stored
      have "previewComment (maxRetry cfg) (previewOk w) (previewPause w) i (nextCid s i) 0 ?s2 = (r, s')"
        by (simp add: writeComment_def createComment_def Let_def)
      from previewComment_cases [OF this] c2 b2 show ?thesis
        by (auto simp: removeComment_def setBottle_def remove_fresh_cid)
    next
      case False
      with assms Stored c2 show ?thesis
        by (auto simp: writeComment_def createComment_def Let_def setBottle_def split: if_splits)
    qed
  qed
qed

lemma commentBottle_outcome:
  assumes "commentBottle lib cfg ses i ct rid qt rt w s = (r, s')"
  shows "s' = s \<and> r \<noteq> PreviewSent \<and> r \<noteq> Commented \<and> r \<noteq> PreviewFailed \<and> r \<noteq> AssetsNotStored
         \<or> (r = PreviewSent \<or> r = Commented \<or> r = Silent \<or> r = Crashed) \<and>
           (\<exists>c. comments s' = comments s @ [c] \<and> c_bid c = i \<and> c_cid c = nextCid s i)
         \<or> (r = PreviewFailed \<or> r = AssetsNotStored) \<and> comments s' = comments s \<and> bottles s' = bottles s"
  using assms
  by (auto simp: commentBottle_def Let_def split: list.splits option.splits if_splits dest!: writeComment_outcome)


lemma cidSet_append:
  "comments s' = comments s @ [c] \<Longrightarrow> c_bid c = i \<Longrightarrow> cidSet s' i = insert (c_cid c) (cidSet s i)"
  by (auto simp: cidSet_def getComment_def)

lemma cidSet_same: "comments s' = comments s \<Longrightarrow> cidSet s' i = cidSet s i"
  by (simp add: cidSet_def getComment_def)

lemma nextCid_segment: "cidSet s i = {1..n} \<Longrightarrow> nextCid s i = Suc n"
proof (cases n)
  case 0
  moreover assume "cidSet s i = {1..n}"
  ultimately show ?thesis by (simp add: nextCid_cidSet)
next
  case (Suc m)
  moreover assume "cidSet s i = {1..n}"
  moreover have "Max {1..Suc m} = Suc m" by (rule Max_eqI) auto
  ultimately show ?thesis by (simp add: nextCid_cidSet)
qed

lemma deleteComment_comments:
  "deleteComment lib cfg ses bid cid s = (CommentDeleted, s') \<Longrightarrow>
     comments s' = filter (\<lambda>r. \<not> (c_bid r = bid \<and> c_cid r = cid)) (comments s) \<and> bottles s' = bottles s"
  unfolding deleteComment_def
  by (auto simp: removeComment_def split: list.splits if_splits prod.splits bool.splits)

lemma deleteComment_cids:
  "deleteComment lib cfg ses bid cid s = (CommentDeleted, s') \<Longrightarrow> cidSet s' bid = cidSet s bid - {cid}"
  by (drule deleteComment_comments) (auto simp: cidSet_def getComment_def)

text \<open>
  C2, as stated: a new comment gets \<open>cid = max + 1\<close> (or \<open>1\<close>), and without concurrent
  writers the numbers in use under a bottle are exactly \<open>1..n\<close>. The second half fails
  as soon as a comment that is not the last one is deleted: the deletion removes the row
  and renumbers nothing. From the comments \<open>1\<close> and \<open>2\<close> of bottle \<open>1\<close>, the author deletes
  comment \<open>1\<close>; the numbers in use are then \<open>{2}\<close>, one number, and not \<open>1..1\<close>.
\<close>

theorem cid_gap_after_delete:
  "cidSet store12 1 = {1..2}
   \<and> deleteComment lib0 cfg0 alice 1 1 store12 = (CommentDeleted, store12\<lparr>comments := [comment2]\<rparr>)
   \<and> cidSet (store12\<lparr>comments := [comment2]\<rparr>) 1 = {2}
   \<and> cidSet (store12\<lparr>comments := [comment2]\<rparr>) 1 \<noteq> {1..card (cidSet (store12\<lparr>comments := [comment2]\<rparr>) 1)}"
proof -
  have d: "deleteComment lib0 cfg0 alice 1 1 store12 = (CommentDeleted, store12\<lparr>comments := [comment2]\<rparr>)"
    by code_simp
  have a: "cidSet store12 1 = {1..2}"
    by (auto simp: cidSet_def getComment_def store12_def comment1_def comment2_def)
  have b: "cidSet (store12\<lparr>comments := [comment2]\<rparr>) 1 = {2}"
    by (simp add: cidSet_def getComment_def store12_def comment1_def comment2_def)
  from d a b show ?thesis by simp
qed

text \<open>
  C2, amended. A comment that is posted (the preview sent, or the plain confirmation
  when the preview is off) is appended with \<open>cid = max + 1\<close> over the comments of its
  bottle, or \<open>1\<close> when there is none. If the numbers in use under the bottle are \<open>1..n\<close>
  before the action, they are \<open>1..n\<close> or \<open>1..n+1\<close> after it however it ends, and \<open>1..n+1\<close>
  when the comment is posted. Deleting a comment takes its number out of the set and
  changes no other number, so the set stays an initial segment only when the last comment
  is the one deleted.
\<close>

theorem cid_sequence:
  "(commentBottle lib cfg ses i ct rid qt rt w s = (r, s') \<longrightarrow>
      (r = PreviewSent \<or> r = Commented \<longrightarrow>
         (\<exists>c. comments s' = comments s @ [c] \<and> c_bid c = i \<and>
              c_cid c = (if cidSet s i = {} then 1 else Max (cidSet s i) + 1)))
      \<and> (\<forall>n. cidSet s i = {1..n} \<longrightarrow>
            (cidSet s' i = {1..n} \<or> cidSet s' i = {1..Suc n})
            \<and> (r = PreviewSent \<or> r = Commented \<longrightarrow> cidSet s' i = {1..Suc n})))
   \<and> (deleteComment lib cfg ses bid cid s = (CommentDeleted, s'') \<longrightarrow> cidSet s'' bid = cidSet s bid - {cid})"
proof (intro conjI impI allI)
  assume a: "commentBottle lib cfg ses i ct rid qt rt w s = (r, s')"
  note o = commentBottle_outcome [OF a]
  have grown: "cidSet s' i = {1..Suc n}"
    if "comments s' = comments s @ [c]" "c_bid c = i" "c_cid c = nextCid s i" "cidSet s i = {1..n}" for c n
  proof -
    have "nextCid s i = Suc n"
      using that(4) by (rule nextCid_segment)
    then have "cidSet s' i = insert (Suc n) {1..n}"
      using that by (simp add: cidSet_append)
    also have "\<dots> = {1..Suc n}" by auto
    finally show ?thesis .
  qed
  { assume "r = PreviewSent \<or> r = Commented"
    with o obtain c where "comments s' = comments s @ [c]" "c_bid c = i" "c_cid c = nextCid s i"
      by auto
    then show "\<exists>c. comments s' = comments s @ [c] \<and> c_bid c = i \<and>
              c_cid c = (if cidSet s i = {} then 1 else Max (cidSet s i) + 1)"
      unfolding nextCid_cidSet by blast }
  { fix n assume n: "cidSet s i = {1..n}"
    from o consider (same) "comments s' = comments s"
      | (more) c where "comments s' = comments s @ [c]" "c_bid c = i" "c_cid c = nextCid s i"
      by (elim disjE conjE exE) simp_all
    then show "cidSet s' i = {1..n} \<or> cidSet s' i = {1..Suc n}"
    proof cases
      case same
      then have "cidSet s' i = cidSet s i" by (rule cidSet_same)
      then show ?thesis using n by simp
    next
      case more
      from more n have "cidSet s' i = {1..Suc n}" by (rule grown)
      then show ?thesis ..
    qed
    { assume "r = PreviewSent \<or> r = Commented"
      with o obtain c where "comments s' = comments s @ [c]" "c_bid c = i" "c_cid c = nextCid s i"
        by auto
      from this n show "cidSet s' i = {1..Suc n}" by (rule grown) } }
next
  assume "deleteComment lib cfg ses bid cid s = (CommentDeleted, s'')"
  then show "cidSet s'' bid = cidSet s bid - {cid}" by (rule deleteComment_cids)
qed

theorem cid_sequence_witness:
  "commentBottle lib0 cfg0 alice 1 (Some ''hi'') 0 None False world0 storeC =
     (PreviewSent, store12)
   \<and> cidSet storeC 1 = {1..1} \<and> cidSet store12 1 = {1..Suc 1}
   \<and> (\<exists>c. comments store12 = comments storeC @ [c] \<and> c_bid c = 1 \<and> c_cid c = Max (cidSet storeC 1) + 1)
   \<and> deleteComment lib0 cfg0 alice 1 2 store12 = (CommentDeleted, storeC\<lparr>bottles := bottles store12\<rparr>)
   \<and> cidSet (storeC\<lparr>bottles := bottles store12\<rparr>) 1 = cidSet store12 1 - {2}"
proof -
  have e: "commentBottle lib0 cfg0 alice 1 (Some ''hi'') 0 None False world0 storeC = (PreviewSent, store12)"
    by code_simp
  have d: "deleteComment lib0 cfg0 alice 1 2 store12 = (CommentDeleted, storeC\<lparr>bottles := bottles store12\<rparr>)"
    by code_simp
  have h: "cidSet storeC 1 = {1..1}"
    by (auto simp: cidSet_def getComment_def storeC_def comment1_def)
  from cid_sequence [where lib = lib0 and cfg = cfg0 and ses = alice and i = 1 and ct = "Some ''hi''"
      and rid = 0 and qt = None and rt = False and w = world0 and s = storeC and r = PreviewSent
      and s' = store12]
    cid_sequence [where lib = lib0 and cfg = cfg0 and ses = alice and bid = 1 and cid = 2 and s = store12
      and s'' = "storeC\<lparr>bottles := bottles store12\<rparr>"]
    e d h show ?thesis by simp
qed


subsection \<open>A preview that cannot be sent\<close>

lemma fresh_bottle_id: "b \<in> set bs \<Longrightarrow> b_id b \<noteq> nextId (map b_id bs)"
  using nextId_fresh [of "b_id b" "map b_id bs"] by auto

lemma set_fresh_bid: "map (\<lambda>b. if b_id b = nextId (map b_id bs) then f b else b) bs = bs"
  by (rule map_idI) (auto dest: fresh_bottle_id)

lemma remove_fresh_bid: "filter (\<lambda>b. b_id b \<noteq> nextId (map b_id bs)) bs = bs"
  by (rule filter_True) (auto dest: fresh_bottle_id)

lemma throwBottle_exhausted:
  assumes p: "preview cfg" and f: "\<forall>k \<le> maxRetry cfg. \<not> previewOk w k"
    and z: "\<forall>k < maxRetry cfg. previewPause w k"
    and t: "throwBottle lib cfg ses title message qt w s = (r, s')"
  shows "r \<noteq> PreviewSent \<and> (\<forall>n. r \<noteq> Thrown n) \<and>
         (r \<noteq> TooLong \<and> r \<noteq> Silent \<longrightarrow> bottles s' = bottles s \<and> comments s' = comments s)"
proof -
  have x: "previewBottle (maxRetry cfg) (previewOk w) (previewPause w) i 0 s0 =
           (PreviewFailed, removeBottle (\<lambda>b. b_id b = i) s0)" for i s0
    using f z by (intro previewBottle_exhausted) auto
  let ?st = "(case saveMode cfg of
                 Url \<Rightarrow> Stored c []
               | Base64 \<Rightarrow> storeAssets (maxRetry cfg) (storeTry w) (storePause w) 0
               | File \<Rightarrow> storeAssets (maxRetry cfg) (storeTry w) (storePause w) 0)"
  from t p show ?thesis
    unfolding throwBottle_def createBottle_def Let_def
    by (auto simp: x removeBottle_def setBottle_def set_fresh_bid remove_fresh_bid
             split: if_splits stored.splits)
qed

lemma writeComment_exhausted:
  assumes p: "preview cfg" and f: "\<forall>k \<le> maxRetry cfg. \<not> previewOk w k"
    and z: "\<forall>k < maxRetry cfg. previewPause w k"
    and t: "writeComment cfg ses w i uid text s = (r, s')"
  shows "r \<noteq> PreviewSent \<and> r \<noteq> Commented \<and>
         (r \<noteq> Silent \<longrightarrow> bottles s' = bottles s \<and> comments s' = comments s)"
proof -
  have x: "previewComment (maxRetry cfg) (previewOk w) (previewPause w) i cid 0 s0 =
           (PreviewFailed, removeComment (\<lambda>c. c_bid c = i \<and> c_cid c = cid) s0)" for cid s0
    using f z by (intro previewComment_exhausted) auto
  from t p show ?thesis
    unfolding writeComment_def createComment_def Let_def
    by (auto simp: x removeComment_def setComment_def set_fresh_id remove_fresh_id remove_fresh_cid
             split: if_splits stored.splits)
qed

lemma commentBottle_exhausted:
  assumes p: "preview cfg" and f: "\<forall>k \<le> maxRetry cfg. \<not> previewOk w k"
    and z: "\<forall>k < maxRetry cfg. previewPause w k"
    and t: "commentBottle lib cfg ses i ct rid qt rt w s = (r, s')"
  shows "r \<noteq> PreviewSent \<and> r \<noteq> Commented \<and>
         (r \<noteq> Silent \<longrightarrow> bottles s' = bottles s \<and> comments s' = comments s)"
  using t writeComment_exhausted [OF p f z]
  by (auto simp: commentBottle_def Let_def split: list.splits option.splits if_splits)


text \<open>
  C6. With the preview enabled, let every attempt to send the preview fail, up to the
  configured number of retries, the pauses between the attempts returning. Then the loop
  of either action gives up and removes the row just created: the bottle with the new id,
  or the comment with the new number under its bottle. For the whole action: it never
  reports the bottle or the comment as posted, and unless it ends on the length check or
  by a pause that is interrupted while the assets are stored, the tables are those from
  before the action.
\<close>

theorem preview_exhausted_row_removed:
  assumes "preview cfg" and "\<forall>k \<le> maxRetry cfg. \<not> previewOk w k"
    and "\<forall>k < maxRetry cfg. previewPause w k"
  shows "previewBottle (maxRetry cfg) (previewOk w) (previewPause w) j 0 s0 =
           (PreviewFailed, removeBottle (\<lambda>b. b_id b = j) s0)
         \<and> getBottle (removeBottle (\<lambda>b. b_id b = j) s0) j = []
         \<and> previewComment (maxRetry cfg) (previewOk w) (previewPause w) j cid 0 s0 =
           (PreviewFailed, removeComment (\<lambda>c. c_bid c = j \<and> c_cid c = cid) s0)
         \<and> getComment (removeComment (\<lambda>c. c_bid c = j \<and> c_cid c = cid) s0) (\<lambda>c. c_bid c = j \<and> c_cid c = cid) = []
         \<and> (throwBottle lib cfg ses title message qt w s = (r, s') \<longrightarrow>
              r \<noteq> PreviewSent \<and> (\<forall>n. r \<noteq> Thrown n) \<and>
              (r \<noteq> TooLong \<and> r \<noteq> Silent \<longrightarrow> bottles s' = bottles s \<and> comments s' = comments s))
         \<and> (commentBottle lib cfg ses i ct rid qt rt w s = (r2, s2) \<longrightarrow>
              r2 \<noteq> PreviewSent \<and> r2 \<noteq> Commented \<and>
              (r2 \<noteq> Silent \<longrightarrow> bottles s2 = bottles s \<and> comments s2 = comments s))"
proof (intro conjI impI)
  show "previewBottle (maxRetry cfg) (previewOk w) (previewPause w) j 0 s0 =
           (PreviewFailed, removeBottle (\<lambda>b. b_id b = j) s0)"
    using assms by (intro previewBottle_exhausted) auto
  show "previewComment (maxRetry cfg) (previewOk w) (previewPause w) j cid 0 s0 =
           (PreviewFailed, removeComment (\<lambda>c. c_bid c = j \<and> c_cid c = cid) s0)"
    using assms by (intro previewComment_exhausted) auto
  show "getBottle (removeBottle (\<lambda>b. b_id b = j) s0) j = []"
    by (simp add: getBottle_def removeBottle_def)
  show "getComment (removeComment (\<lambda>c. c_bid c = j \<and> c_cid c = cid) s0) (\<lambda>c. c_bid c = j \<and> c_cid c = cid) = []"
    by (simp add: getComment_def removeComment_def)
next
  assume t: "throwBottle lib cfg ses title message qt w s = (r, s')"
  from throwBottle_exhausted [OF assms t]
  show "r \<noteq> PreviewSent" "\<forall>n. r \<noteq> Thrown n" by simp_all
  { assume "r \<noteq> TooLong \<and> r \<noteq> Silent"
    with throwBottle_exhausted [OF assms t]
    show "bottles s' = bottles s" "comments s' = comments s" by simp_all }
next
  assume t: "commentBottle lib cfg ses i ct rid qt rt w s = (r2, s2)"
  from commentBottle_exhausted [OF assms t]
  show "r2 \<noteq> PreviewSent" "r2 \<noteq> Commented" by simp_all
  { assume "r2 \<noteq> Silent"
    with commentBottle_exhausted [OF assms t]
    show "bottles s2 = bottles s" "comments s2 = comments s" by simp_all }
qed

theorem preview_exhausted_row_removed_witness:
  "throwBottle lib0 cfg0 alice None (Some ''abc'') None worldDown store1 = (PreviewFailed, store1)
   \<and> commentBottle lib0 cfg0 alice 1 (Some ''hi'') 0 None False worldDown store1 = (PreviewFailed, store1)
   \<and> previewBottle (maxRetry cfg0) (previewOk worldDown) (previewPause worldDown) 1 0 store1 =
       (PreviewFailed, removeBottle (\<lambda>b. b_id b = 1) store1)"
proof -
  have p: "preview cfg0" by (simp add: cfg0_def)
  have f: "\<forall>k \<le> maxRetry cfg0. \<not> previewOk worldDown k" by (simp add: worldDown_def)
  have z: "\<forall>k < maxRetry cfg0. previewPause worldDown k" by (simp add: worldDown_def world0_def)
  have t: "throwBottle lib0 cfg0 alice None (Some ''abc'') None worldDown store1 = (PreviewFailed, store1)"
    by code_simp
  have c: "commentBottle lib0 cfg0 alice 1 (Some ''hi'') 0 None False worldDown store1 = (PreviewFailed, store1)"
    by code_simp
  from preview_exhausted_row_removed [OF p f z, where j = 1 and ?s0.0 = store1 and lib = lib0 and ses = alice
      and title = None and message = "Some ''abc''" and qt = None and s = store1 and r = PreviewFailed
      and s' = store1 and i = 1 and ct = "Some ''hi''" and rid = 0 and rt = False and ?r2.0 = PreviewFailed
      and ?s2.0 = store1] t c
  show ?thesis by simp
qed


subsection \<open>The expiry sweep\<close>

text \<open>
  C4, as stated: the sweep deletes exactly the bottles older than \<open>N\<close> days and exactly
  the comments of these bottles. The sweep also removes every comment that is itself
  older than \<open>N\<close> days, whatever its bottle, and the purge of undeliverable bottles leaves
  the comments of a purged bottle in the table. On day \<open>10\<close> two bottles are thrown and
  bottle \<open>1\<close> is commented; the audit purges bottle \<open>1\<close>, and its comment stays. On day \<open>100\<close>
  the sweep with \<open>N = 30\<close> deletes bottle \<open>2\<close>, the only expired bottle, and with it the
  comment whose \<open>bid\<close> is \<open>1\<close>, which is not a comment of bottle \<open>2\<close>.
\<close>

theorem sweep_deletes_orphan_comment:
  "throwBottle lib0 cfg0 alice None (Some ''aa'') None world10 storeEmpty =
     (PreviewSent, storeEmpty\<lparr>bottles := [thrownA]\<rparr>)
   \<and> throwBottle lib0 cfg0 alice None (Some ''bb'') None world10 (storeEmpty\<lparr>bottles := [thrownA]\<rparr>) =
     (PreviewSent, storeEmpty\<lparr>bottles := [thrownA, thrownB]\<rparr>)
   \<and> commentBottle lib0 cfg0 alice 1 (Some ''hi'') 0 None False world10
        (storeEmpty\<lparr>bottles := [thrownA, thrownB]\<rparr>) = (PreviewSent, storeTwo)
   \<and> deleteBroken cfg0 root None None auditOne storeTwo = (Purged, storeOrphan)
   \<and> deleteExpired cfg0 root (Some 30) 100 storeOrphan = (ExpiredDeleted, storeEmpty)
   \<and> map b_id (filter (\<lambda>b. 30 < age 100 (b_time b)) (bottles storeOrphan)) = [2]
   \<and> map c_bid (comments storeOrphan) = [1]
   \<and> comments storeEmpty = []"
  by code_simp

lemma older_age: "older now d t \<longleftrightarrow> int d < age now t"
  by (auto simp: older_def age_def)

lemma deleteExpired_bottles:
  assumes "userId ses \<in> set (manager cfg)" and "0 < d"
  shows "bottles (snd (deleteExpired cfg ses (Some d) now s)) =
           filter (\<lambda>b. \<not> int d < age now (b_time b)) (bottles s)"
proof (cases "filter (\<lambda>b. older now d (b_time b)) (bottles s) = []")
  case True
  then have "filter (\<lambda>b. \<not> older now d (b_time b)) (bottles s) = bottles s"
    by (simp add: filter_empty_conv)
  with True assms show ?thesis
    by (simp add: deleteExpired_def older_age)
next
  case False
  with assms show ?thesis
    by (simp add: deleteExpired_def older_age removeBottle_def removeComment_def Let_def)
qed

lemma deleteExpired_comments:
  assumes "userId ses \<in> set (manager cfg)" and "0 < d"
  shows "comments (snd (deleteExpired cfg ses (Some d) now s)) =
           (if expiredIds now d s = {} then comments s
            else filter (\<lambda>c. \<not> int d < age now (c_time c) \<and> c_bid c \<notin> expiredIds now d s) (comments s))"
proof (cases "filter (\<lambda>b. older now d (b_time b)) (bottles s) = []")
  case True
  then have "expiredIds now d s = {}"
    by (auto simp: expiredIds_def older_age filter_empty_conv)
  with True assms show ?thesis
    by (simp add: deleteExpired_def)
next
  case False
  then have ne: "expiredIds now d s \<noteq> {}"
    by (auto simp: expiredIds_def older_age filter_empty_conv)
  have ids: "set (map b_id (filter (\<lambda>b. older now d (b_time b)) (bottles s))) = expiredIds now d s"
    by (auto simp: expiredIds_def older_age)
  from False assms have "comments (snd (deleteExpired cfg ses (Some d) now s)) =
      filter (\<lambda>c. c_bid c \<notin> set (map b_id (filter (\<lambda>b. older now d (b_time b)) (bottles s))))
        (filter (\<lambda>c. \<not> older now d (c_time c)) (comments s))"
    by (simp add: deleteExpired_def removeBottle_def removeComment_def Let_def)
  also have "\<dots> = filter (\<lambda>c. \<not> int d < age now (c_time c) \<and> c_bid c \<notin> expiredIds now d s) (comments s)"
    unfolding ids by (simp add: older_age conj_commute)
  finally show ?thesis using ne by simp
qed

text \<open>
  C4, amended. For a manager and a threshold of \<open>N > 0\<close> days the sweep leaves exactly
  the bottles whose age is at most \<open>N\<close> (those of age exactly \<open>N\<close> stay). If no bottle is
  older, no comment is touched; otherwise the comments that remain are those that are
  neither older than \<open>N\<close> days themselves nor under a deleted bottle. When every comment
  belongs to a bottle that is not younger than the comment, the deleted comments are
  exactly those of the deleted bottles. When no comment is older than a bottle it
  belongs to, the deleted comments are exactly those of the deleted bottles together with
  those older than \<open>N\<close> days whose bottle is no longer in the table.
\<close>

theorem expiry_sweep:
  assumes "userId ses \<in> set (manager cfg)" and "0 < d"
  shows "bottles (snd (deleteExpired cfg ses (Some d) now s)) =
           filter (\<lambda>b. \<not> int d < age now (b_time b)) (bottles s)
         \<and> comments (snd (deleteExpired cfg ses (Some d) now s)) =
           (if expiredIds now d s = {} then comments s
            else filter (\<lambda>c. \<not> int d < age now (c_time c) \<and> c_bid c \<notin> expiredIds now d s) (comments s))
         \<and> ((\<forall>c \<in> set (comments s). \<exists>b \<in> set (bottles s). b_id b = c_bid c \<and> b_time b \<le> c_time c) \<longrightarrow>
              comments (snd (deleteExpired cfg ses (Some d) now s)) =
                filter (\<lambda>c. c_bid c \<notin> expiredIds now d s) (comments s))
         \<and> filter (\<lambda>b. age now (b_time b) = int d) (bottles (snd (deleteExpired cfg ses (Some d) now s))) =
           filter (\<lambda>b. age now (b_time b) = int d) (bottles s)
         \<and> ((\<forall>c \<in> set (comments s). \<forall>b \<in> set (bottles s). b_id b = c_bid c \<longrightarrow> b_time b \<le> c_time c) \<longrightarrow>
              comments (snd (deleteExpired cfg ses (Some d) now s)) =
                (if expiredIds now d s = {} then comments s
                 else filter (\<lambda>c. c_bid c \<notin> expiredIds now d s \<and>
                                 \<not> (c_bid c \<notin> b_id ` set (bottles s) \<and> int d < age now (c_time c)))
                        (comments s)))"
proof (intro conjI impI)
  show b: "bottles (snd (deleteExpired cfg ses (Some d) now s)) =
           filter (\<lambda>b. \<not> int d < age now (b_time b)) (bottles s)"
    using assms by (rule deleteExpired_bottles)
  show "filter (\<lambda>b. age now (b_time b) = int d) (bottles (snd (deleteExpired cfg ses (Some d) now s))) =
           filter (\<lambda>b. age now (b_time b) = int d) (bottles s)"
    unfolding b filter_filter by (rule filter_cong) auto
  show c: "comments (snd (deleteExpired cfg ses (Some d) now s)) =
           (if expiredIds now d s = {} then comments s
            else filter (\<lambda>c. \<not> int d < age now (c_time c) \<and> c_bid c \<notin> expiredIds now d s) (comments s))"
    using assms by (rule deleteExpired_comments)
  assume inv: "\<forall>c \<in> set (comments s). \<exists>b \<in> set (bottles s). b_id b = c_bid c \<and> b_time b \<le> c_time c"
  have old: "c_bid c \<in> expiredIds now d s" if "c \<in> set (comments s)" "int d < age now (c_time c)" for c
  proof -
    from inv that(1) obtain b where b: "b \<in> set (bottles s)" "b_id b = c_bid c" "b_time b \<le> c_time c"
      by blast
    then have "int d < age now (b_time b)" using that(2) by (simp add: age_def)
    with b show ?thesis by (force simp: expiredIds_def)
  qed
  have "filter (\<lambda>c. \<not> int d < age now (c_time c) \<and> c_bid c \<notin> expiredIds now d s) (comments s) =
        filter (\<lambda>c. c_bid c \<notin> expiredIds now d s) (comments s)"
    by (rule filter_cong) (auto dest: old)
  moreover have "expiredIds now d s = {} \<Longrightarrow> filter (\<lambda>c. c_bid c \<notin> expiredIds now d s) (comments s) = comments s"
    by simp
  ultimately show "comments (snd (deleteExpired cfg ses (Some d) now s)) =
                filter (\<lambda>c. c_bid c \<notin> expiredIds now d s) (comments s)"
    unfolding c by simp
next
  assume ord: "\<forall>c \<in> set (comments s). \<forall>b \<in> set (bottles s). b_id b = c_bid c \<longrightarrow> b_time b \<le> c_time c"
  have old: "c_bid c \<in> expiredIds now d s"
    if "c \<in> set (comments s)" "int d < age now (c_time c)" "c_bid c \<in> b_id ` set (bottles s)" for c
  proof -
    from that(3) obtain b where b: "b \<in> set (bottles s)" "b_id b = c_bid c" by auto
    with ord that(1) have "b_time b \<le> c_time c" by blast
    then have "int d < age now (b_time b)" using that(2) by (simp add: age_def)
    with b show ?thesis by (force simp: expiredIds_def)
  qed
  have "filter (\<lambda>c. \<not> int d < age now (c_time c) \<and> c_bid c \<notin> expiredIds now d s) (comments s) =
        filter (\<lambda>c. c_bid c \<notin> expiredIds now d s \<and>
                     \<not> (c_bid c \<notin> b_id ` set (bottles s) \<and> int d < age now (c_time c))) (comments s)"
    by (rule filter_cong) (auto dest: old)
  with deleteExpired_comments [OF assms, of now s]
  show "comments (snd (deleteExpired cfg ses (Some d) now s)) =
                (if expiredIds now d s = {} then comments s
                 else filter (\<lambda>c. c_bid c \<notin> expiredIds now d s \<and>
                                 \<not> (c_bid c \<notin> b_id ` set (bottles s) \<and> int d < age now (c_time c)))
                        (comments s))"
    by simp
qed

theorem expiry_sweep_witness:
  "bottles (snd (deleteExpired cfg0 root (Some 30) 100 storeImg)) = []
   \<and> comments (snd (deleteExpired cfg0 root (Some 30) 100 storeImg)) = []
   \<and> bottles (snd (deleteExpired cfg0 root (Some 90) 100 storeImg)) = [bottle2]
   \<and> comments (snd (deleteExpired cfg0 root (Some 90) 100 storeImg)) = comments storeImg
   \<and> age 100 (b_time bottle2) = 90"
proof -
  have m: "userId root \<in> set (manager cfg0)" by (simp add: root_def cfg0_def)
  have inv: "\<forall>c \<in> set (comments storeImg). \<exists>b \<in> set (bottles storeImg). b_id b = c_bid c \<and> b_time b \<le> c_time c"
    by (simp add: storeImg_def bottle2_def comment1_def)
  have ord: "\<forall>c \<in> set (comments storeImg). \<forall>b \<in> set (bottles storeImg). b_id b = c_bid c \<longrightarrow> b_time b \<le> c_time c"
    by (simp add: storeImg_def bottle2_def comment1_def)
  have e30: "expiredIds 100 30 storeImg = {2}"
    by (simp add: expiredIds_def age_def storeImg_def bottle2_def)
  have e90: "expiredIds 100 90 storeImg = {}"
    by (simp add: expiredIds_def age_def storeImg_def bottle2_def)
  from expiry_sweep [OF m, of 30 100 storeImg] expiry_sweep [OF m, of 90 100 storeImg] inv ord e30 e90
  show ?thesis
    by (simp add: age_def storeImg_def bottle2_def comment1_def)
qed


subsection \<open>Drawing a bottle by its name\<close>

text \<open>
  C7. The claim: with an argument that is not a number, one matching bottle is drawn,
  more than one give a list of ids and names instead of a bottle, none gives the
  not-found answer. The action cuts the matches into pages and then counts the rows of
  the requested page, not the matches (and it takes the page size from \<open>bottleLimit\<close>,
  where the configuration declares \<open>nameBottleLimit\<close> for this command and nothing reads
  it). With a page size of \<open>2\<close> the pattern \<open>ab\<close> matches the bottles \<open>1\<close>, \<open>2\<close> and \<open>3\<close>: the
  first page is the list of the bottles \<open>1\<close> and \<open>2\<close>, as the list itself tells the user to
  page on, the second page holds bottle \<open>3\<close> alone and bottle \<open>3\<close> is drawn, and the third
  page gives the not-found answer.
\<close>

theorem draw_page_of_one_is_drawn:
  "toNumber lib0 ''ab'' = NaN
   \<and> map_option (\<lambda>m. map b_id (nameMatches m store3)) (regexTest lib0 ''ab'') = Some [1, 2, 3]
   \<and> bottleLimit cfgPage = 2
   \<and> drawBottle lib0 cfgPage (Some ''ab'') None draw0 store3 = (Listing [(1, ''ab''), (2, ''abc'')], store3)
   \<and> drawBottle lib0 cfgPage (Some ''ab'') (Some 2) draw0 store3 =
       (Drawn 3 [], store3\<lparr>bottleMap := [(''m1'', 3)]\<rparr>)
   \<and> drawBottle lib0 cfgPage (Some ''ab'') (Some 3) draw0 store3 = (NoSuchBottle, store3)"
  by code_simp

subsection \<open>The backfill of the comment counter at the start\<close>


end
